theory Spec2Isabelle
  imports Complex_Main "HOL-Library.Word"
begin

unbundle bit_operations_syntax

section \<open>pymlstate: a batch-training state around an opaque Python model\<close>

text \<open>
  The Go package \<open>pymlstate\<close> (file \<open>state.go\<close>) wraps a \<open>pystate.Base\<close>: it collects
  tuples in a bucket, calls the model's \<open>fit\<close> when the bucket holds \<open>batch_train_size\<close>
  tuples, and saves and loads its own parameters in front of the model's payload.

  The embedding is sequential: every method takes the state and returns the new one.
  The reader/writer lock \<open>rwm\<close> makes each method atomic with respect to the fields of
  \<open>State\<close>, and is not represented.  Go's \<open>int\<close> is taken to be the 64-bit one and is
  modelled by \<open>int\<close>: the code compares and converts \<open>BatchSize\<close>, it never computes
  with it.  The only fixed-width arithmetic is the \<open>uint32\<close> length prefix of the saved
  parameters, a \<open>32 word\<close>.
\<close>

subsection \<open>Errors, parameters, log records\<close>

type_synonym byte = "8 word"

text \<open>
  Go \<open>error\<close> values.  \<open>ErrorString\<close> is \<open>errors.New\<close> (also used for the errors that the
  collaborators return), \<open>UnsupportedFormatVersion v\<close> is
  \<open>fmt.Errorf("unsupported format version of State container: %v", v)\<close>, and
  \<open>RuntimePanic\<close> is a panic of the Go runtime, which is not an \<open>error\<close> return.
\<close>

datatype error =
    ErrorString string
  | UnsupportedFormatVersion byte
  | RuntimePanic string

definition EOF :: error where
  "EOF = ErrorString ''EOF''"

definition ErrUnexpectedEOF :: error where
  "ErrUnexpectedEOF = ErrorString ''unexpected EOF''"

record MLParams =
  BatchSize :: int

text \<open>
  What a method does to its surroundings, in order: \<open>Called f args\<close> is one invocation
  \<open>s.base.Call(f, args...)\<close>; \<open>ErrLog err n\<close> is the error record of \<open>Write\<close> with its
  field \<open>bucket_size = n\<close>; \<open>Debugf x y\<close> is
  \<open>ctx.Log().Debugf("loss=%.3f acc=%.3f", x, y)\<close>.
\<close>

datatype ('v, 'f) event =
    Called string "'v list"
  | ErrLog error nat
  | Debugf 'f 'f

definition lossPath :: string where
  "lossPath = ''loss''"

definition accPath :: string where
  "accPath = ''accuracy''"


subsection \<open>The collaborators\<close>

text \<open>
  Everything \<open>state.go\<close> imports is a parameter of the model: the types
  \<open>'b\<close> (\<open>pystate.Base\<close>), \<open>'v\<close> (\<open>data.Value\<close>, which \<open>data.Map\<close> and \<open>data.Array\<close>
  implement), \<open>'f\<close> (\<open>float64\<close>), \<open>'w\<close> (an \<open>io.Writer\<close>), \<open>'r\<close> (an \<open>io.Reader\<close>) and
  \<open>'p\<close> (\<open>pystate.BaseParams\<close>), and the functions below.  A method of a collaborator
  takes its receiver's state and returns the new one next to its Go results.

  \<^item> \<open>pystate\<close>: \<open>NewBase\<close>, and the methods \<open>CheckTermination\<close>, \<open>Terminate\<close>, \<open>Call\<close>,
    \<open>Save\<close>, \<open>Load\<close> of \<open>Base\<close>;
  \<^item> \<open>data\<close>: the conversion of a \<open>data.Array\<close> to a \<open>data.Value\<close>, \<open>AsMap\<close>,
    \<open>Map.Get\<close> at a compiled path, \<open>ToFloat\<close>;
  \<^item> \<open>float64\<close>: the conversion from \<open>int\<close> and the division;
  \<^item> \<open>codec\<close>: msgpack encoding and decoding of an \<open>MLParams\<close>;
  \<^item> \<open>io\<close>: \<open>w.Write(p)\<close> (bytes written, error), \<open>r.Read(buf)\<close> with \<open>len(buf) = n\<close>
    (the bytes received, error), and \<open>io.ReadFull(r, buf)\<close> with \<open>len(buf) = n\<close>;
  \<^item> the runtime: the capacity \<open>append\<close> gives a slice that is full
    (\<open>growslice oldcap needed\<close>), and the largest capacity \<open>make\<close> accepts for a
    \<open>data.Array\<close>.
\<close>

record ('b, 'v, 'f, 'w, 'r, 'p) deps =
  pystate_NewBase :: "'p \<Rightarrow> 'v \<Rightarrow> error + 'b"
  base_CheckTermination :: "'b \<Rightarrow> error option"
  base_Terminate :: "'b \<Rightarrow> error option \<times> 'b"
  base_Call :: "string \<Rightarrow> 'v list \<Rightarrow> 'b \<Rightarrow> (error + 'v) \<times> 'b"
  base_Save :: "'b \<Rightarrow> 'w \<Rightarrow> 'v \<Rightarrow> error option \<times> 'w \<times> 'b"
  base_Load :: "'b \<Rightarrow> 'r \<Rightarrow> 'v \<Rightarrow> error option \<times> 'r \<times> 'b"
  data_Array :: "'v list \<Rightarrow> 'v"
  data_AsMap :: "'v \<Rightarrow> error + 'v"
  data_Get :: "'v \<Rightarrow> string \<Rightarrow> error + 'v"
  data_ToFloat :: "'v \<Rightarrow> error + 'f"
  float64_of_int :: "int \<Rightarrow> 'f"
  float64_div :: "'f \<Rightarrow> 'f \<Rightarrow> 'f"
  codec_Encode :: "MLParams \<Rightarrow> error + byte list"
  codec_Decode :: "byte list \<Rightarrow> error + MLParams"
  w_Write :: "'w \<Rightarrow> byte list \<Rightarrow> (nat \<times> error option) \<times> 'w"
  r_Read :: "'r \<Rightarrow> nat \<Rightarrow> (byte list \<times> error option) \<times> 'r"
  io_ReadFull :: "'r \<Rightarrow> nat \<Rightarrow> (error + byte list) \<times> 'r"
  growslice :: "nat \<Rightarrow> nat \<Rightarrow> nat"
  maxSliceCap :: int

subsection \<open>The state\<close>

text \<open>
  \<open>bucket\<close> is a Go slice: its elements and, in \<open>bucket_cap\<close>, its capacity.
\<close>

record ('b, 'v) State =
  base :: 'b
  params :: MLParams
  bucket :: "'v list"
  bucket_cap :: nat

text \<open>
  \<open>New\<close>: \<open>make(data.Array, 0, mlParams.BatchSize)\<close> panics on a negative capacity and
  on one beyond what the runtime can allocate.
\<close>

definition New ::
  "('b, 'v, 'f, 'w, 'r, 'p) deps \<Rightarrow> 'p \<Rightarrow> MLParams \<Rightarrow> 'v \<Rightarrow> error + ('b, 'v) State" where
  "New X baseParams mlParams ps =
     (case pystate_NewBase X baseParams ps of
        Inl err \<Rightarrow> Inl err
      | Inr b \<Rightarrow>
          if BatchSize mlParams < 0 \<or> maxSliceCap X < BatchSize mlParams
          then Inl (RuntimePanic ''makeslice: cap out of range'')
          else Inr \<lparr>base = b, params = mlParams, bucket = [],
                    bucket_cap = nat (BatchSize mlParams)\<rparr>)"


text \<open>\<open>s.base.Call(f, args...)\<close>, with the invocation recorded.\<close>

definition Call ::
  "('b, 'v, 'f, 'w, 'r, 'p) deps \<Rightarrow> ('b, 'v) State \<Rightarrow> string \<Rightarrow> 'v list \<Rightarrow>
     (error + 'v) \<times> ('b, 'v) State \<times> ('v, 'f) event list" where
  "Call X s f args =
     (case base_Call X f args (base s) of
        (res, b) \<Rightarrow> (res, s\<lparr>base := b\<rparr>, [Called f args]))"

definition fit ::
  "('b, 'v, 'f, 'w, 'r, 'p) deps \<Rightarrow> ('b, 'v) State \<Rightarrow> 'v list \<Rightarrow>
     (error + 'v) \<times> ('b, 'v) State \<times> ('v, 'f) event list" where
  "fit X s bkt = Call X s ''fit'' [data_Array X bkt]"

text \<open>The capacity of a slice of length \<open>len\<close> and capacity \<open>c\<close> after \<open>append\<close> of one element.\<close>

definition append_cap :: "('b, 'v, 'f, 'w, 'r, 'p) deps \<Rightarrow> nat \<Rightarrow> nat \<Rightarrow> nat" where
  "append_cap X c len = (if len < c then c else growslice X c (len + 1))"

definition Write ::
  "('b, 'v, 'f, 'w, 'r, 'p) deps \<Rightarrow> ('b, 'v) State \<Rightarrow> 'v \<Rightarrow>
     error option \<times> ('b, 'v) State \<times> ('v, 'f) event list" where
  "Write X s t =
     (case base_CheckTermination X (base s) of
        Some err \<Rightarrow> (Some err, s, [])
      | None \<Rightarrow>
          (let s1 = s\<lparr>bucket := bucket s @ [t],
                      bucket_cap := append_cap X (bucket_cap s) (length (bucket s))\<rparr>
           in if int (length (bucket s1)) < BatchSize (params s1) then (None, s1, [])
              else
                (case fit X s1 (bucket s1) of
                   (m, s2, ev) \<Rightarrow>
                     (let prevBucketSize = length (bucket s2);
                          s3 = s2\<lparr>bucket := []\<rparr>
                      in case m of
                           Inl err \<Rightarrow> (Some err, s3, ev @ [ErrLog err prevBucketSize])
                         | Inr m \<Rightarrow>
                             (case data_AsMap X m of
                                Inl e \<Rightarrow> (None, s3, ev)
                              | Inr ret \<Rightarrow>
                                  (case data_Get X ret lossPath of
                                     Inl e \<Rightarrow> (None, s3, ev)
                                   | Inr l \<Rightarrow>
                                       (case data_ToFloat X l of
                                          Inl e \<Rightarrow> (None, s3, ev)
                                        | Inr loss \<Rightarrow>
                                            (case data_Get X ret accPath of
                                               Inl e \<Rightarrow> (None, s3, ev)
                                             | Inr a \<Rightarrow>
                                                 (case data_ToFloat X a of
                                                    Inl e \<Rightarrow> (None, s3, ev)
                                                  | Inr acc \<Rightarrow>
                                                      (None, s3, ev @
                                                        [Debugf
                                                          (float64_div X loss
                                                            (float64_of_int X (BatchSize (params s3))))
                                                          (float64_div X acc
                                                            (float64_of_int X (BatchSize (params s3))))]))))))))))"




subsection \<open>Saving and loading\<close>


definition Uint32 :: "byte list \<Rightarrow> 32 word" where
  "Uint32 b = ucast (b ! 0) OR push_bit 8 (ucast (b ! 1)) OR push_bit 16 (ucast (b ! 2))
                OR push_bit 24 (ucast (b ! 3))"

text \<open>
  A buffer \<open>make([]byte, n)\<close> after the bytes \<open>bs\<close> were read into it: \<open>n\<close> bytes, zero
  where nothing was received.
\<close>

definition filled :: "nat \<Rightarrow> byte list \<Rightarrow> byte list" where
  "filled n bs = take n (bs @ replicate n 0)"


definition binary_Read_uint8 ::
  "('b, 'v, 'f, 'w, 'r, 'p) deps \<Rightarrow> 'r \<Rightarrow> (error + byte) \<times> 'r" where
  "binary_Read_uint8 X r =
     (case io_ReadFull X r 1 of
        (Inl err, r') \<Rightarrow> (Inl err, r')
      | (Inr bs, r') \<Rightarrow> (Inr (filled 1 bs ! 0), r'))"

definition binary_Read_uint32 ::
  "('b, 'v, 'f, 'w, 'r, 'p) deps \<Rightarrow> 'r \<Rightarrow> (error + 32 word) \<times> 'r" where
  "binary_Read_uint32 X r =
     (case io_ReadFull X r 4 of
        (Inl err, r') \<Rightarrow> (Inl err, r')
      | (Inr bs, r') \<Rightarrow> (Inr (Uint32 (filled 4 bs)), r'))"



definition loadMLParamsAndDataV1 ::
  "('b, 'v, 'f, 'w, 'r, 'p) deps \<Rightarrow> ('b, 'v) State \<Rightarrow> 'r \<Rightarrow> 'v \<Rightarrow>
     error option \<times> ('b, 'v) State \<times> 'r" where
  "loadMLParamsAndDataV1 X s r ps =
     (case binary_Read_uint32 X r of
        (Inl err, r1) \<Rightarrow> (Some err, s, r1)
      | (Inr dataSize, r1) \<Rightarrow>
          if dataSize = 0
          then (Some (ErrorString ''size of MLParams must be greater than 0''), s, r1)
          else
            (case r_Read X r1 (unat dataSize) of
               ((buf, Some err), r2) \<Rightarrow> (Some err, s, r2)
             | ((buf, None), r2) \<Rightarrow>
                 if length buf \<noteq> unat dataSize
                 then (Some (ErrorString
                         ''read size is different from the size of MLParams''), s, r2)
                 else
                   (case codec_Decode X buf of
                      Inl err \<Rightarrow> (Some err, s, r2)
                    | Inr saved \<Rightarrow>
                        (case base_Load X (base s) r2 ps of
                           (Some err, r3, b) \<Rightarrow> (Some err, s\<lparr>base := b\<rparr>, r3)
                         | (None, r3, b) \<Rightarrow> (None, s\<lparr>base := b, params := saved\<rparr>, r3)))))"

definition Load ::
  "('b, 'v, 'f, 'w, 'r, 'p) deps \<Rightarrow> ('b, 'v) State \<Rightarrow> 'r \<Rightarrow> 'v \<Rightarrow>
     error option \<times> ('b, 'v) State \<times> 'r" where
  "Load X s r ps =
     (case base_CheckTermination X (base s) of
        Some err \<Rightarrow> (Some err, s, r)
      | None \<Rightarrow>
          (case binary_Read_uint8 X r of
             (Inl err, r1) \<Rightarrow> (Some err, s, r1)
           | (Inr formatVersion, r1) \<Rightarrow>
               if formatVersion = 1 then loadMLParamsAndDataV1 X s r1 ps
               else (Some (UnsupportedFormatVersion formatVersion), s, r1)))"

subsection \<open>Sequences of calls\<close>

text \<open>
  \<open>Writes X s ts\<close> calls \<open>Write\<close> once for each tuple of \<open>ts\<close>, in order, whatever the
  calls return: the returned errors (one per call), the last state, and all records.
\<close>

fun Writes ::
  "('b, 'v, 'f, 'w, 'r, 'p) deps \<Rightarrow> ('b, 'v) State \<Rightarrow> 'v list \<Rightarrow>
     error option list \<times> ('b, 'v) State \<times> ('v, 'f) event list" where
  "Writes X s [] = ([], s, [])"
| "Writes X s (t # ts) =
     (case Write X s t of
        (e, s1, ev1) \<Rightarrow>
          (case Writes X s1 ts of
             (es, s2, ev2) \<Rightarrow> (e # es, s2, ev1 @ ev2)))"

text \<open>The invocations of \<open>s.base.Call\<close> among the records, in order.\<close>

fun calls :: "('v, 'f) event list \<Rightarrow> (string \<times> 'v list) list" where
  "calls [] = []"
| "calls (Called f args # evs) = (f, args) # calls evs"
| "calls (ErrLog err n # evs) = calls evs"
| "calls (Debugf x y # evs) = calls evs"

subsection \<open>Streams in memory\<close>

text \<open>
  A \<open>bytes.Buffer\<close> as writer (the bytes written so far; a write appends all of \<open>p\<close> and
  never fails) and a \<open>bytes.Reader\<close> as reader (the bytes not yet read; \<open>Read\<close> gives
  what is left, up to \<open>len(buf)\<close>, and \<open>io.EOF\<close> when nothing is left).  \<open>io.ReadFull\<close>
  over such a reader gives \<open>n\<close> bytes, \<open>io.EOF\<close> when there is none and
  \<open>io.ErrUnexpectedEOF\<close> when there are fewer than \<open>n\<close>.
\<close>

definition buffer_Write :: "byte list \<Rightarrow> byte list \<Rightarrow> (nat \<times> error option) \<times> byte list" where
  "buffer_Write w p = ((length p, None), w @ p)"

definition bytes_Read :: "byte list \<Rightarrow> nat \<Rightarrow> (byte list \<times> error option) \<times> byte list" where
  "bytes_Read r n = (if r = [] then (([], Some EOF), r) else ((take n r, None), drop n r))"

definition bytes_ReadFull :: "byte list \<Rightarrow> nat \<Rightarrow> (error + byte list) \<times> byte list" where
  "bytes_ReadFull r n =
     (if n \<le> length r then (Inr (take n r), drop n r)
      else if r = [] then (Inl EOF, r)
      else (Inl ErrUnexpectedEOF, []))"


subsection \<open>A test double for the collaborators\<close>

text \<open>
  The examples below run the methods on these collaborators: values with the shapes of
  \<open>data.Value\<close> that the code looks at, a model that counts its batches, reports its
  termination and saves its count in one byte, a codec that knows the msgpack encoding
  of an \<open>MLParams\<close> whose \<open>batch_train_size\<close> is a positive fixint (and of the empty
  map), and the streams in memory.
\<close>

datatype val =
    VNull
  | VInt int
  | VFloat real
  | VString string
  | VArray "val list"
  | VMap "(string \<times> val) list"

record pybase =
  terminated :: bool
  batches :: nat

definition ErrAlreadyTerminated :: error where
  "ErrAlreadyTerminated = ErrorString ''the state is already terminated''"

definition demo_NewBase :: "string \<Rightarrow> val \<Rightarrow> error + pybase" where
  "demo_NewBase className ps =
     (if className = [] then Inl (ErrorString ''class_name is missing'')
      else Inr \<lparr>terminated = False, batches = 0\<rparr>)"

definition demo_CheckTermination :: "pybase \<Rightarrow> error option" where
  "demo_CheckTermination b = (if terminated b then Some ErrAlreadyTerminated else None)"

definition demo_Terminate :: "pybase \<Rightarrow> error option \<times> pybase" where
  "demo_Terminate b = (None, b\<lparr>terminated := True\<rparr>)"

text \<open>
  The model: \<open>fit\<close> fails on a batch that holds a null record and otherwise answers
  \<open>{"loss": 4.0, "accuracy": 1.8}\<close>; \<open>predict\<close> answers its input.  \<open>python_Call\<close> is the
  instance alone, \<open>demo_Call\<close> refuses to reach it once the base is terminated.
\<close>

definition python_Call :: "string \<Rightarrow> val list \<Rightarrow> pybase \<Rightarrow> (error + val) \<times> pybase" where
  "python_Call f args b =
     (if f = ''fit'' then
        (case args of
           [VArray xs] \<Rightarrow>
             if VNull \<in> set xs then (Inl (ErrorString ''fit failed''), b)
             else (Inr (VMap [(''loss'', VFloat 4), (''accuracy'', VFloat (18 / 10))]),
                   b\<lparr>batches := batches b + 1\<rparr>)
         | _ \<Rightarrow> (Inl (ErrorString ''bad arguments''), b))
      else if f = ''predict'' then
        (case args of
           [x] \<Rightarrow> (Inr x, b)
         | _ \<Rightarrow> (Inl (ErrorString ''bad arguments''), b))
      else (Inl (ErrorString ''no such method''), b))"

definition demo_Call :: "string \<Rightarrow> val list \<Rightarrow> pybase \<Rightarrow> (error + val) \<times> pybase" where
  "demo_Call f args b =
     (if terminated b then (Inl ErrAlreadyTerminated, b) else python_Call f args b)"

definition demo_Save :: "pybase \<Rightarrow> byte list \<Rightarrow> val \<Rightarrow> error option \<times> byte list \<times> pybase" where
  "demo_Save b w ps = (None, w @ [word_of_nat (batches b)], b)"

definition demo_Load :: "pybase \<Rightarrow> byte list \<Rightarrow> val \<Rightarrow> error option \<times> byte list \<times> pybase" where
  "demo_Load b r ps =
     (case r of
        [] \<Rightarrow> (Some EOF, r, b)
      | x # rest \<Rightarrow> (None, rest, b\<lparr>batches := unat x\<rparr>))"

definition demo_AsMap :: "val \<Rightarrow> error + val" where
  "demo_AsMap v =
     (case v of
        VMap kvs \<Rightarrow> Inr v
      | _ \<Rightarrow> Inl (ErrorString ''unsupported cast to map''))"

definition demo_Get :: "val \<Rightarrow> string \<Rightarrow> error + val" where
  "demo_Get v path =
     (case v of
        VMap kvs \<Rightarrow>
          (case map_of kvs path of
             Some x \<Rightarrow> Inr x
           | None \<Rightarrow> Inl (ErrorString ''key was not found in the map''))
      | _ \<Rightarrow> Inl (ErrorString ''not a map''))"

definition demo_ToFloat :: "val \<Rightarrow> error + real" where
  "demo_ToFloat v =
     (case v of
        VFloat x \<Rightarrow> Inr x
      | VInt i \<Rightarrow> Inr (of_int i)
      | _ \<Rightarrow> Inl (ErrorString ''unsupported cast to float''))"

text \<open>The bytes of the msgpack string \<open>"batch_train_size"\<close>, without its header.\<close>

definition batch_train_size_key :: "byte list" where
  "batch_train_size_key =
     [0x62, 0x61, 0x74, 0x63, 0x68, 0x5f, 0x74, 0x72,
      0x61, 0x69, 0x6e, 0x5f, 0x73, 0x69, 0x7a, 0x65]"

definition demo_Encode :: "MLParams \<Rightarrow> error + byte list" where
  "demo_Encode p =
     (if 0 \<le> BatchSize p \<and> BatchSize p \<le> 127
      then Inr ([0x81, 0xb0] @ batch_train_size_key @ [word_of_int (BatchSize p)])
      else Inl (ErrorString ''value not supported by the test codec''))"

definition demo_Decode :: "byte list \<Rightarrow> error + MLParams" where
  "demo_Decode bs =
     (if bs = [0x80] then Inr \<lparr>BatchSize = 0\<rparr>
      else if length bs = 19 \<and> take 18 bs = [0x81, 0xb0] @ batch_train_size_key
                \<and> bs ! 18 \<le> 0x7f
      then Inr \<lparr>BatchSize = uint (bs ! 18)\<rparr>
      else Inl (ErrorString ''msgpack decode error''))"

definition demo :: "(pybase, val, real, byte list, byte list, string) deps" where
  "demo =
     \<lparr>pystate_NewBase = demo_NewBase,
      base_CheckTermination = demo_CheckTermination,
      base_Terminate = demo_Terminate,
      base_Call = demo_Call,
      base_Save = demo_Save,
      base_Load = demo_Load,
      data_Array = VArray,
      data_AsMap = demo_AsMap,
      data_Get = demo_Get,
      data_ToFloat = demo_ToFloat,
      float64_of_int = of_int,
      float64_div = (\<lambda>x y. x / y),
      codec_Encode = demo_Encode,
      codec_Decode = demo_Decode,
      w_Write = buffer_Write,
      r_Read = bytes_Read,
      io_ReadFull = bytes_ReadFull,
      growslice = (\<lambda>c n. n),
      maxSliceCap = 2 ^ 44\<rparr>"

text \<open>A state of the test double: batch size 2, nothing in the bucket.\<close>

definition demo_state :: "(pybase, val) State" where
  "demo_state =
     \<lparr>base = \<lparr>terminated = False, batches = 0\<rparr>, params = \<lparr>BatchSize = 2\<rparr>,
      bucket = [], bucket_cap = 2\<rparr>"

section \<open>Properties\<close>

lemmas demo_defs =
  demo_def demo_state_def demo_NewBase_def demo_CheckTermination_def demo_Terminate_def
  python_Call_def demo_Call_def demo_Save_def demo_Load_def demo_AsMap_def demo_Get_def
  demo_ToFloat_def demo_Encode_def demo_Decode_def batch_train_size_key_def buffer_Write_def
  bytes_Read_def bytes_ReadFull_def ErrAlreadyTerminated_def EOF_def ErrUnexpectedEOF_def

subsection \<open>One call of \<open>Write\<close>\<close>

lemma Write_terminated:
  "base_CheckTermination X (base s) = Some err \<Longrightarrow> Write X s t = (Some err, s, [])"
  by (simp add: Write_def)

lemma Write_success_live:
  "Write X s t = (None, s', evs) \<Longrightarrow> base_CheckTermination X (base s) = None"
  by (cases "base_CheckTermination X (base s)") (simp_all add: Write_def)

lemma Write_not_full:
  assumes "base_CheckTermination X (base s) = None"
    and "int (length (bucket s)) + 1 < BatchSize (params s)"
  shows "Write X s t =
           (None,
            s\<lparr>bucket := bucket s @ [t],
              bucket_cap := append_cap X (bucket_cap s) (length (bucket s))\<rparr>, [])"
  using assms by (simp add: Write_def Let_def)

lemma Write_full:
  assumes "base_CheckTermination X (base s) = None"
    and "BatchSize (params s) \<le> int (length (bucket s)) + 1"
    and "Write X s t = (e, s', evs)"
  shows "calls evs = [(''fit'', [data_Array X (bucket s @ [t])])]"
    and "bucket s' = []" and "params s' = params s"
  using assms
  by (auto simp add: Write_def fit_def Call_def Let_def split: sum.splits prod.splits)

subsection \<open>Sequences of \<open>Write\<close>\<close>

text \<open>
  As long as the bucket stays below the batch size, successful calls only append: the
  base is not called and nothing is logged.
\<close>

lemma Writes_below:
  assumes "int (length (bucket s) + length ts) < BatchSize (params s)"
    and "Writes X s ts = (es, s', evs)"
    and "\<forall>e \<in> set es. e = None"
  shows "bucket s' = bucket s @ ts \<and> base s' = base s \<and> params s' = params s \<and> evs = []"
  using assms
proof (induction ts arbitrary: s es s' evs)
  case Nil
  then show ?case by simp
next
  case (Cons t ts)
  obtain e s1 ev1 where w: "Write X s t = (e, s1, ev1)"
    by (metis prod_cases3)
  obtain es2 s2 ev2 where ws: "Writes X s1 ts = (es2, s2, ev2)"
    by (metis prod_cases3)
  from Cons.prems(2) w ws have eq: "es = e # es2" "s' = s2" "evs = ev1 @ ev2"
    by simp_all
  with Cons.prems(3) have e: "e = None" and es2: "\<forall>e \<in> set es2. e = None"
    by simp_all
  from w e have live: "base_CheckTermination X (base s) = None"
    by (simp add: Write_success_live)
  from Cons.prems(1) have small: "int (length (bucket s)) + 1 < BatchSize (params s)"
    by simp
  from Write_not_full [OF live small, of t] w
  have s1: "s1 = s\<lparr>bucket := bucket s @ [t],
              bucket_cap := append_cap X (bucket_cap s) (length (bucket s))\<rparr>"
    and ev1: "ev1 = []"
    by simp_all
  from Cons.prems(1) s1 have "int (length (bucket s1) + length ts) < BatchSize (params s1)"
    by simp
  from Cons.IH [OF this ws es2] s1 ev1 eq show ?case
    by simp
qed

lemma Writes_snoc:
  "Writes X s (ts @ [t]) =
     (case Writes X s ts of
        (es, s1, ev1) \<Rightarrow>
          (case Write X s1 t of
             (e, s2, ev2) \<Rightarrow> (es @ [e], s2, ev1 @ ev2)))"
  by (induction ts arbitrary: s) (simp_all split: prod.splits)

text \<open>
  C1.  Let the batch size be \<open>N \<ge> 1\<close> and the bucket empty.  After \<open>N\<close> calls of
  \<open>Write\<close> that all return \<open>nil\<close>, the base has been called exactly once, with the
  method \<open>fit\<close> and the array of the \<open>N\<close> tuples in the order of the calls, and the bucket
  has length 0.
\<close>

theorem batch_fills_once:
  assumes N: "1 \<le> BatchSize (params s)"
    and empty: "bucket s = []"
    and len: "int (length ts) = BatchSize (params s)"
    and run: "Writes X s ts = (es, s', evs)"
    and ok: "\<forall>e \<in> set es. e = None"
  shows "calls evs = [(''fit'', [data_Array X ts])] \<and> length (bucket s') = 0"
proof -
  from N len have "ts \<noteq> []" by auto
  then obtain us t where ts: "ts = us @ [t]"
    by (metis rev_exhaust)
  obtain es1 s1 ev1 where r1: "Writes X s us = (es1, s1, ev1)"
    by (metis prod_cases3)
  obtain e s2 ev2 where r2: "Write X s1 t = (e, s2, ev2)"
    by (metis prod_cases3)
  from run ts r1 r2 have eq: "es = es1 @ [e]" "s' = s2" "evs = ev1 @ ev2"
    by (simp_all add: Writes_snoc)
  with ok have e: "e = None" and es1: "\<forall>e \<in> set es1. e = None"
    by simp_all
  from len ts empty have "int (length (bucket s) + length us) < BatchSize (params s)"
    by simp
  from Writes_below [OF this r1 es1] empty
  have s1: "bucket s1 = us" "params s1 = params s" and ev1: "ev1 = []"
    by simp_all
  from r2 e have live: "base_CheckTermination X (base s1) = None"
    by (simp add: Write_success_live)
  from s1 len ts have full: "BatchSize (params s1) \<le> int (length (bucket s1)) + 1"
    by simp
  from Write_full [OF live full r2] s1 ts eq ev1 show ?thesis
    by simp
qed

text \<open>
  The example of the specification: batch size 2, \<open>Write({"x":1})\<close>, \<open>Write({"x":2})\<close>.
\<close>

theorem batch_fills_once_witness:
  "Writes demo demo_state [VMap [(''x'', VInt 1)], VMap [(''x'', VInt 2)]] =
     ([None, None], demo_state\<lparr>base := \<lparr>terminated = False, batches = 1\<rparr>\<rparr>,
      [Called ''fit'' [VArray [VMap [(''x'', VInt 1)], VMap [(''x'', VInt 2)]]],
       Debugf 2 (9 / 10)])
   \<and> calls [Called ''fit'' [VArray [VMap [(''x'', VInt 1)], VMap [(''x'', VInt 2)]]],
            Debugf 2 (9 / 10 :: real)]
       = [(''fit'', [data_Array demo [VMap [(''x'', VInt 1)], VMap [(''x'', VInt 2)]]])]
   \<and> length (bucket (demo_state\<lparr>base := \<lparr>terminated = False, batches = 1\<rparr>\<rparr>)) = 0"
proof -
  have run: "Writes demo demo_state [VMap [(''x'', VInt 1)], VMap [(''x'', VInt 2)]] =
     ([None, None], demo_state\<lparr>base := \<lparr>terminated = False, batches = 1\<rparr>\<rparr>,
      [Called ''fit'' [VArray [VMap [(''x'', VInt 1)], VMap [(''x'', VInt 2)]]],
       Debugf 2 (9 / 10)])"
    by (simp add: Write_def fit_def Call_def append_cap_def lossPath_def accPath_def
        Let_def demo_defs)
  have "1 \<le> BatchSize (params demo_state)" "bucket demo_state = []"
    "int (length [VMap [(''x'', VInt 1)], VMap [(''x'', VInt 2)]])
       = BatchSize (params demo_state)"
    "\<forall>e \<in> set [None, None :: error option]. e = None"
    by (simp_all add: demo_state_def)
  from batch_fills_once [OF this(1-3) run this(4)] run show ?thesis
    by simp
qed

text \<open>
  C7.  When a call of \<open>Write\<close> fills the batch and \<open>fit\<close> fails, the bucket is cut to
  length 0 with the capacity it had, the tuples are gone, the failure is logged with
  the size of the lost batch, and the error of \<open>fit\<close> is what \<open>Write\<close> returns.
\<close>

theorem Write_fit_failure_drops_batch:
  assumes "base_CheckTermination X (base s) = None"
    and "BatchSize (params s) \<le> int (length (bucket s)) + 1"
    and "base_Call X ''fit'' [data_Array X (bucket s @ [t])] (base s) = (Inl err, b)"
  shows "Write X s t =
           (Some err,
            s\<lparr>base := b, bucket := [],
              bucket_cap := append_cap X (bucket_cap s) (length (bucket s))\<rparr>,
            [Called ''fit'' [data_Array X (bucket s @ [t])],
             ErrLog err (length (bucket s) + 1)])"
  using assms by (simp add: Write_def fit_def Call_def Let_def)

theorem Write_fit_failure_drops_batch_witness:
  "Write demo (demo_state\<lparr>bucket := [VInt 1]\<rparr>) VNull =
     (Some (ErrorString ''fit failed''),
      demo_state\<lparr>bucket := [], bucket_cap := 2\<rparr>,
      [Called ''fit'' [VArray [VInt 1, VNull]], ErrLog (ErrorString ''fit failed'') 2])"
  using Write_fit_failure_drops_batch
    [of demo "demo_state\<lparr>bucket := [VInt 1]\<rparr>" VNull "ErrorString ''fit failed''"
        "\<lparr>terminated = False, batches = 0\<rparr>"]
  by (simp add: demo_defs append_cap_def)

lemma Write_keeps_bucket_below:
  assumes "int (length (bucket s)) < BatchSize (params s)"
    and "Write X s t = (e, s', evs)"
  shows "int (length (bucket s')) < BatchSize (params s') \<and> params s' = params s"
proof (cases "base_CheckTermination X (base s)")
  case (Some err)
  with assms show ?thesis by (simp add: Write_def)
next
  case None
  show ?thesis
  proof (cases "int (length (bucket s)) + 1 < BatchSize (params s)")
    case True
    from Write_not_full [OF None True, of t] assms True show ?thesis by auto
  next
    case False
    then have "BatchSize (params s) \<le> int (length (bucket s)) + 1" by simp
    from Write_full(2,3) [OF None this assms(2)] assms(1) show ?thesis by simp
  qed
qed

lemma Writes_keep_bucket_below:
  assumes "int (length (bucket s)) < BatchSize (params s)"
    and "Writes X s ts = (es, s', evs)"
  shows "int (length (bucket s')) < BatchSize (params s') \<and> params s' = params s"
  using assms
proof (induction ts arbitrary: s es s' evs)
  case Nil
  then show ?case by simp
next
  case (Cons t ts)
  obtain e s1 ev1 where w: "Write X s t = (e, s1, ev1)"
    by (metis prod_cases3)
  obtain es2 s2 ev2 where ws: "Writes X s1 ts = (es2, s2, ev2)"
    by (metis prod_cases3)
  from Cons.prems(2) w ws have eq: "s' = s2" by simp
  from Write_keeps_bucket_below [OF Cons.prems(1) w]
  have s1: "int (length (bucket s1)) < BatchSize (params s1)" "params s1 = params s"
    by blast+
  from Cons.IH [OF s1(1) ws] s1(2) eq show ?case by auto
qed

text \<open>
  C2.  Let the batch size be \<open>N \<ge> 1\<close> and the bucket shorter than \<open>N\<close>, as it is in a
  new state.  After each call of any sequence of calls of \<open>Write\<close> (every prefix
  \<open>take k ts\<close> of the sequence), whatever the calls returned, the length of the bucket
  is between 0 and \<open>N - 1\<close>.
\<close>

theorem bucket_below_batch_size:
  assumes "1 \<le> BatchSize (params s)"
    and "int (length (bucket s)) < BatchSize (params s)"
    and "Writes X s (take k ts) = (es, s', evs)"
  shows "0 \<le> int (length (bucket s')) \<and> int (length (bucket s')) \<le> BatchSize (params s) - 1"
proof -
  from Writes_keep_bucket_below [OF assms(2,3)]
  have "int (length (bucket s')) < BatchSize (params s')" and "params s' = params s"
    by blast+
  then show ?thesis by simp
qed

theorem bucket_below_batch_size_witness:
  "Writes demo demo_state (take 3 [VInt 1, VInt 2, VInt 3, VInt 4]) =
     ([None, None, None],
      demo_state\<lparr>base := \<lparr>terminated = False, batches = 1\<rparr>, bucket := [VInt 3]\<rparr>,
      [Called ''fit'' [VArray [VInt 1, VInt 2]], Debugf 2 (9 / 10)])
   \<and> 0 \<le> int (length (bucket (demo_state\<lparr>base := \<lparr>terminated = False, batches = 1\<rparr>,
                                           bucket := [VInt 3]\<rparr>)))
   \<and> int (length (bucket (demo_state\<lparr>base := \<lparr>terminated = False, batches = 1\<rparr>,
                                      bucket := [VInt 3]\<rparr>)))
       \<le> BatchSize (params demo_state) - 1"
proof -
  have run: "Writes demo demo_state (take 3 [VInt 1, VInt 2, VInt 3, VInt 4]) =
     ([None, None, None],
      demo_state\<lparr>base := \<lparr>terminated = False, batches = 1\<rparr>, bucket := [VInt 3]\<rparr>,
      [Called ''fit'' [VArray [VInt 1, VInt 2]], Debugf 2 (9 / 10)])"
    by (simp add: Write_def fit_def Call_def append_cap_def lossPath_def accPath_def
        Let_def demo_defs)
  have "1 \<le> BatchSize (params demo_state)"
    "int (length (bucket demo_state)) < BatchSize (params demo_state)"
    by (simp_all add: demo_state_def)
  from bucket_below_batch_size [OF this run] run show ?thesis
    by simp
qed

subsection \<open>Construction\<close>

text \<open>
  C3, as the specification states it, does not hold: \<open>New\<close> with a batch size of 0 (and
  a base that can be built) returns a state, not an error.
\<close>

theorem New_accepts_zero_batch_size:
  "BatchSize \<lparr>BatchSize = 0\<rparr> \<le> 0 \<and>
   New demo ''Classifier'' \<lparr>BatchSize = 0\<rparr> VNull =
     Inr \<lparr>base = \<lparr>terminated = False, batches = 0\<rparr>, params = \<lparr>BatchSize = 0\<rparr>,
          bucket = [], bucket_cap = 0\<rparr>"
  by (simp add: New_def demo_defs)

text \<open>
  C3, amended.  \<open>New\<close> does not look at the batch size.  When \<open>pystate.NewBase\<close> fails,
  \<open>New\<close> returns its error and no state.  When it succeeds, every batch size from 0 up
  to the largest capacity the runtime allocates gives a state with that batch size, an
  empty bucket and that capacity.
\<close>

theorem New_does_not_validate:
  "(pystate_NewBase X baseParams ps = Inl err \<longrightarrow> New X baseParams mlParams ps = Inl err) \<and>
   (pystate_NewBase X baseParams ps = Inr b \<and>
    0 \<le> BatchSize mlParams \<and> BatchSize mlParams \<le> maxSliceCap X \<longrightarrow>
      New X baseParams mlParams ps =
        Inr \<lparr>base = b, params = mlParams, bucket = [], bucket_cap = nat (BatchSize mlParams)\<rparr>)"
  by (auto simp add: New_def)

theorem New_does_not_validate_witness:
  "New demo [] \<lparr>BatchSize = 10\<rparr> VNull = Inl (ErrorString ''class_name is missing'')
   \<and> New demo ''Classifier'' \<lparr>BatchSize = 10\<rparr> VNull =
       Inr \<lparr>base = \<lparr>terminated = False, batches = 0\<rparr>, params = \<lparr>BatchSize = 10\<rparr>,
            bucket = [], bucket_cap = 10\<rparr>"
  using New_does_not_validate
      [of demo "[]" VNull "ErrorString ''class_name is missing''" "\<lparr>BatchSize = 10\<rparr>"
          "\<lparr>terminated = False, batches = 0\<rparr>"]
    New_does_not_validate
      [of demo "''Classifier''" VNull "ErrorString ''class_name is missing''"
          "\<lparr>BatchSize = 10\<rparr>" "\<lparr>terminated = False, batches = 0\<rparr>"]
  by (simp add: demo_defs)

subsection \<open>After termination\<close>




subsection \<open>Loading\<close>

lemma loadV1_cases:
  assumes "loadMLParamsAndDataV1 X s r ps = (res, s', r')"
  shows "bucket s' = bucket s \<and>
         (res \<noteq> None \<longrightarrow> params s' = params s) \<and>
         (res = None \<longrightarrow>
            (\<exists>bs r1 buf r2 saved b.
               io_ReadFull X r 4 = (Inr bs, r1) \<and> Uint32 (filled 4 bs) \<noteq> 0 \<and>
               r_Read X r1 (unat (Uint32 (filled 4 bs))) = ((buf, None), r2) \<and>
               length buf = unat (Uint32 (filled 4 bs)) \<and>
               codec_Decode X buf = Inr saved \<and>
               base_Load X (base s) r2 ps = (None, r', b) \<and>
               s' = s\<lparr>base := b, params := saved\<rparr>))"
  using assms
  by (auto simp add: loadMLParamsAndDataV1_def binary_Read_uint32_def
      split: prod.splits sum.splits option.splits if_splits)


text \<open>
  C5.  \<open>Load\<close> never touches the bucket.  Whenever it returns an error, the parameters
  are the ones before the call.  It returns \<open>nil\<close> only when every step succeeded: the
  state is not terminated, the version byte is read and is 1, the length prefix is read
  and is not 0, one \<open>Read\<close> gives exactly that many bytes without an error, they decode
  to an \<open>MLParams\<close>, and the \<open>Load\<close> of the base succeeds on the rest of the stream;
  then, and only then, the decoded parameters replace the live ones.
\<close>

theorem Load_replaces_params_last:
  assumes "Load X s r ps = (res, s', r')"
  shows "bucket s' = bucket s \<and>
         (res \<noteq> None \<longrightarrow> params s' = params s) \<and>
         (res = None \<longrightarrow>
            (\<exists>vs r0 bs r1 buf r2 saved b.
               base_CheckTermination X (base s) = None \<and>
               io_ReadFull X r 1 = (Inr vs, r0) \<and> filled 1 vs ! 0 = 1 \<and>
               io_ReadFull X r0 4 = (Inr bs, r1) \<and> Uint32 (filled 4 bs) \<noteq> 0 \<and>
               r_Read X r1 (unat (Uint32 (filled 4 bs))) = ((buf, None), r2) \<and>
               length buf = unat (Uint32 (filled 4 bs)) \<and>
               codec_Decode X buf = Inr saved \<and>
               base_Load X (base s) r2 ps = (None, r', b) \<and>
               s' = s\<lparr>base := b, params := saved\<rparr>))"
proof (cases "base_CheckTermination X (base s)")
  case (Some err)
  with assms show ?thesis by (auto simp add: Load_def)
next
  case None
  show ?thesis
  proof (cases "io_ReadFull X r 1")
    case (Pair x r0)
    show ?thesis
    proof (cases x)
      case (Inl err)
      with assms None Pair show ?thesis
        by (auto simp add: Load_def binary_Read_uint8_def)
    next
      case (Inr vs)
      show ?thesis
      proof (cases "filled 1 vs ! 0 = 1")
        case False
        with assms None Pair Inr show ?thesis
          by (auto simp add: Load_def binary_Read_uint8_def)
      next
        case True
        with assms None Pair Inr have "loadMLParamsAndDataV1 X s r0 ps = (res, s', r')"
          by (simp add: Load_def binary_Read_uint8_def)
        from loadV1_cases [OF this] None Pair Inr True show ?thesis
          by auto
      qed
    qed
  qed
qed

theorem Load_replaces_params_last_witness:
  "Load (demo\<lparr>base_Load := \<lambda>b r ps. (Some (ErrorString ''load failed''), r, b\<lparr>batches := 99\<rparr>)\<rparr>)
     demo_state
     [1, 19, 0, 0, 0, 0x81, 0xb0, 0x62, 0x61, 0x74, 0x63, 0x68, 0x5f, 0x74, 0x72,
      0x61, 0x69, 0x6e, 0x5f, 0x73, 0x69, 0x7a, 0x65, 5, 7] VNull =
     (Some (ErrorString ''load failed''),
      demo_state\<lparr>base := \<lparr>terminated = False, batches = 99\<rparr>\<rparr>, [7])
   \<and> params (demo_state\<lparr>base := \<lparr>terminated = False, batches = 99\<rparr>\<rparr>) = \<lparr>BatchSize = 2\<rparr>
   \<and> Load demo demo_state [1, 19, 0] VNull = (Some ErrUnexpectedEOF, demo_state, [])"
proof -
  let ?X = "demo\<lparr>base_Load :=
              \<lambda>b r ps. (Some (ErrorString ''load failed''), r, b\<lparr>batches := 99\<rparr>)\<rparr>"
  let ?r = "[1, 19, 0, 0, 0, 0x81, 0xb0, 0x62, 0x61, 0x74, 0x63, 0x68, 0x5f, 0x74, 0x72,
      0x61, 0x69, 0x6e, 0x5f, 0x73, 0x69, 0x7a, 0x65, 5, 7] :: byte list"
  have r: "Load ?X demo_state ?r VNull =
     (Some (ErrorString ''load failed''),
      demo_state\<lparr>base := \<lparr>terminated = False, batches = 99\<rparr>\<rparr>, [7])"
    by (simp add: Load_def loadMLParamsAndDataV1_def binary_Read_uint8_def
        binary_Read_uint32_def filled_def Uint32_def demo_defs)
  have q: "Load demo demo_state [1, 19, 0] VNull = (Some ErrUnexpectedEOF, demo_state, [])"
    by (simp add: Load_def loadMLParamsAndDataV1_def binary_Read_uint8_def
        binary_Read_uint32_def filled_def Uint32_def demo_defs)
  have p: "params demo_state = \<lparr>BatchSize = 2\<rparr>"
    by (simp add: demo_state_def)
  from Load_replaces_params_last [OF r] p
  have "params (demo_state\<lparr>base := \<lparr>terminated = False, batches = 99\<rparr>\<rparr>) = \<lparr>BatchSize = 2\<rparr>"
    by simp
  with r q show ?thesis by simp
qed

text \<open>
  C8.  When the state is not terminated and the first byte of the stream is a version
  \<open>v\<close> other than 1, \<open>Load\<close> returns the error of an unsupported format version that
  carries \<open>v\<close>, and the state (parameters, bucket, base) is the one before the call; one
  byte of the stream has been read.
\<close>

theorem Load_unsupported_version:
  assumes "base_CheckTermination X (base s) = None"
    and "io_ReadFull X r 1 = (Inr [v], r1)"
    and "v \<noteq> 1"
  shows "Load X s r ps = (Some (UnsupportedFormatVersion v), s, r1)"
  using assms by (simp add: Load_def binary_Read_uint8_def filled_def)

theorem Load_unsupported_version_witness:
  "Load demo demo_state [2, 19, 0, 0, 0] VNull =
     (Some (UnsupportedFormatVersion 2), demo_state, [19, 0, 0, 0])"
  using Load_unsupported_version [of demo demo_state "[2, 19, 0, 0, 0]" 2 "[19, 0, 0, 0]" VNull]
  by (simp add: demo_defs)

text \<open>
  C10.  \<open>Load\<close> does not check the decoded parameters: when the parameter block of a
  version-1 stream decodes to a batch size that is not positive and the \<open>Load\<close> of the
  base succeeds, \<open>Load\<close> returns \<open>nil\<close> and the state has that batch size.
\<close>

theorem Load_does_not_validate_batch_size:
  assumes "base_CheckTermination X (base s) = None"
    and "io_ReadFull X r 1 = (Inr [1], r0)"
    and "io_ReadFull X r0 4 = (Inr bs, r1)"
    and "Uint32 (filled 4 bs) \<noteq> 0"
    and "r_Read X r1 (unat (Uint32 (filled 4 bs))) = ((buf, None), r2)"
    and "length buf = unat (Uint32 (filled 4 bs))"
    and "codec_Decode X buf = Inr saved"
    and "BatchSize saved \<le> 0"
    and "base_Load X (base s) r2 ps = (None, r3, b)"
  shows "Load X s r ps = (None, s\<lparr>base := b, params := saved\<rparr>, r3) \<and>
         BatchSize (params (s\<lparr>base := b, params := saved\<rparr>)) \<le> 0"
  using assms
  by (simp add: Load_def loadMLParamsAndDataV1_def binary_Read_uint8_def
      binary_Read_uint32_def filled_def)

theorem Load_does_not_validate_batch_size_witness:
  "Load demo demo_state [1, 1, 0, 0, 0, 0x80, 7] VNull =
     (None, demo_state\<lparr>base := \<lparr>terminated = False, batches = 7\<rparr>,
                       params := \<lparr>BatchSize = 0\<rparr>\<rparr>, [])
   \<and> BatchSize (params (demo_state\<lparr>base := \<lparr>terminated = False, batches = 7\<rparr>,
                       params := \<lparr>BatchSize = 0\<rparr>\<rparr>)) \<le> 0"
  using Load_does_not_validate_batch_size
    [of demo demo_state "[1, 1, 0, 0, 0, 0x80, 7]" "[1, 0, 0, 0, 0x80, 7]" "[1, 0, 0, 0]"
        "[0x80, 7]" "[0x80]" "[7]" "\<lparr>BatchSize = 0\<rparr>" VNull "[]"
        "\<lparr>terminated = False, batches = 7\<rparr>"]
  by (simp add: demo_defs filled_def Uint32_def)

subsection \<open>Saving, then loading\<close>










subsection \<open>Diagnostics of a batch\<close>

text \<open>
  C9.  When a call of \<open>Write\<close> fills the batch and \<open>fit\<close> succeeds, \<open>Write\<close> returns
  \<open>nil\<close> whatever the result \<open>m\<close> of \<open>fit\<close> is.  When \<open>m\<close> is a map whose fields
  \<open>loss\<close> and \<open>accuracy\<close> convert to floats, the call logs, after the call of \<open>fit\<close>,
  exactly one debug record, with the loss divided by the batch size and the accuracy
  divided by the batch size.
\<close>

theorem Write_diagnostics_best_effort:
  assumes "base_CheckTermination X (base s) = None"
    and "BatchSize (params s) \<le> int (length (bucket s)) + 1"
    and "base_Call X ''fit'' [data_Array X (bucket s @ [t])] (base s) = (Inr m, b)"
  shows "fst (Write X s t) = None \<and>
         (data_AsMap X m = Inr ret \<and>
            data_Get X ret lossPath = Inr l \<and> data_ToFloat X l = Inr loss \<and>
            data_Get X ret accPath = Inr a \<and> data_ToFloat X a = Inr acc \<longrightarrow>
            snd (snd (Write X s t)) =
              [Called ''fit'' [data_Array X (bucket s @ [t])],
               Debugf (float64_div X loss (float64_of_int X (BatchSize (params s))))
                      (float64_div X acc (float64_of_int X (BatchSize (params s))))])"
  using assms by (simp add: Write_def fit_def Call_def Let_def split: sum.splits)


text \<open>
  The example of the specification, \<open>{"loss": 4.0, "accuracy": 1.8}\<close> with batch size 2,
  and three results without usable diagnostics: not a map, no accuracy, a loss that is
  not a number.
\<close>

theorem Write_diagnostics_best_effort_witness:
  "fst (Write demo (demo_state\<lparr>bucket := [VInt 1]\<rparr>) (VInt 2)) = None
   \<and> snd (snd (Write demo (demo_state\<lparr>bucket := [VInt 1]\<rparr>) (VInt 2))) =
       [Called ''fit'' [VArray [VInt 1, VInt 2]], Debugf 2 (9 / 10)]
   \<and> fst (Write (demo\<lparr>base_Call := \<lambda>f args b. (Inr (VString ''done''), b)\<rparr>)
            (demo_state\<lparr>bucket := [VInt 1]\<rparr>) (VInt 2)) = None
   \<and> fst (Write (demo\<lparr>base_Call := \<lambda>f args b. (Inr (VMap [(''loss'', VInt 4)]), b)\<rparr>)
            (demo_state\<lparr>bucket := [VInt 1]\<rparr>) (VInt 2)) = None
   \<and> fst (Write (demo\<lparr>base_Call := \<lambda>f args b.
              (Inr (VMap [(''loss'', VString ''low''), (''accuracy'', VInt 1)]), b)\<rparr>)
            (demo_state\<lparr>bucket := [VInt 1]\<rparr>) (VInt 2)) = None"
proof -
  let ?s = "demo_state\<lparr>bucket := [VInt 1]\<rparr>"
  let ?b = "\<lparr>terminated = False, batches = 0\<rparr>"
  note th = Write_diagnostics_best_effort
  have 1: "fst (Write demo ?s (VInt 2)) = None
     \<and> snd (snd (Write demo ?s (VInt 2))) =
       [Called ''fit'' [VArray [VInt 1, VInt 2]], Debugf 2 (9 / 10)]"
    using th [of demo ?s "VInt 2" "VMap [(''loss'', VFloat 4), (''accuracy'', VFloat (18 / 10))]"
                "\<lparr>terminated = False, batches = 1\<rparr>"
                "VMap [(''loss'', VFloat 4), (''accuracy'', VFloat (18 / 10))]"
                "VFloat 4" 4 "VFloat (18 / 10)" "18 / 10"]
    by (simp add: demo_defs lossPath_def accPath_def)
  have 2: "fst (Write (demo\<lparr>base_Call := \<lambda>f args b. (Inr (VString ''done''), b)\<rparr>) ?s (VInt 2)) = None"
    using th [of "demo\<lparr>base_Call := \<lambda>f args b. (Inr (VString ''done''), b)\<rparr>" ?s "VInt 2"
                "VString ''done''" ?b]
    by (simp add: demo_defs)
  have 3: "fst (Write (demo\<lparr>base_Call := \<lambda>f args b. (Inr (VMap [(''loss'', VInt 4)]), b)\<rparr>) ?s (VInt 2)) = None"
    using th [of "demo\<lparr>base_Call := \<lambda>f args b. (Inr (VMap [(''loss'', VInt 4)]), b)\<rparr>" ?s "VInt 2"
                "VMap [(''loss'', VInt 4)]" ?b]
    by (simp add: demo_defs)
  have 4: "fst (Write (demo\<lparr>base_Call := \<lambda>f args b.
              (Inr (VMap [(''loss'', VString ''low''), (''accuracy'', VInt 1)]), b)\<rparr>) ?s (VInt 2)) = None"
    using th [of "demo\<lparr>base_Call := \<lambda>f args b.
              (Inr (VMap [(''loss'', VString ''low''), (''accuracy'', VInt 1)]), b)\<rparr>" ?s "VInt 2"
                "VMap [(''loss'', VString ''low''), (''accuracy'', VInt 1)]" ?b]
    by (simp add: demo_defs)
  from 1 2 3 4 show ?thesis by simp
qed

end
